theory Spec2Isabelle
  imports Complex_Main
begin

section \<open>The change-filmstrips notebook\<close>

text \<open>
  The source is the Jupyter notebook \<^verbatim>\<open>Real_world_examples/Change_filmstrips.ipynb\<close>.
  Its code cells are: the imports, the parameter-staging cell, the cell that calls
  \<^verbatim>\<open>run_filmstrip_app\<close>, and the export loop over
  \<^verbatim>\<open>output_data.groupby('timestep')\<close>. The cells run one after the other in
  one Python kernel, whose module namespace they share. A cell is modelled as a function
  from the kernel state to an optional exception and the kernel state it leaves.
\<close>

subsection \<open>Exceptions\<close>

text \<open>
  No cell has a \<^verbatim>\<open>try\<close>: an exception ends the cell. \<open>NameError x\<close> is what
  Python raises when the name \<open>x\<close> is read while unbound; \<open>ExternalError m\<close> stands
  for whatever an imported function raises.
\<close>

datatype exn = NameError string | ExternalError string

subsection \<open>Formatted string literals\<close>

text \<open>
  An f-string is a sequence of literal parts and replacement fields; its value is the
  concatenation, in order, of the literal texts and of the formatted field values.
\<close>

datatype fpart = Lit string | Field string

fun render :: "fpart \<Rightarrow> string" where
  "render (Lit s) = s"
| "render (Field s) = s"

definition fstring :: "fpart list \<Rightarrow> string" where
  "fstring ps = concat (map render ps)"

subsection \<open>Python's \<^verbatim>\<open>str\<close> of an integer\<close>

text \<open>
  A group label is formatted by the f-string with the label's own \<^verbatim>\<open>__format__\<close>.
  For an integer label (\<^verbatim>\<open>1988\<close>) that is its decimal numeral, with a leading
  minus sign when negative; for a string label it is the string itself.
\<close>

definition digit_char :: "nat \<Rightarrow> char" where
  "digit_char d = ''0123456789'' ! d"

function str_nat :: "nat \<Rightarrow> string" where
  "str_nat n = (if n < 10 then [digit_char n] else str_nat (n div 10) @ [digit_char (n mod 10)])"
  by pat_completeness auto
termination
  by (relation "measure id") auto

declare str_nat.simps [simp del]

definition str_int :: "int \<Rightarrow> string" where
  "str_int i = (if i < 0 then CHR ''-'' # str_nat (nat (- i)) else str_nat (nat i))"

definition str_str :: "string \<Rightarrow> string" where
  "str_str s = s"

subsection \<open>The parameter set\<close>

text \<open>
  The seven variables of the parameter-staging cell. \<^verbatim>\<open>time_step\<close> is a dict, kept
  as the list of its items; the two floats of \<^verbatim>\<open>tide_range\<close> are the literals
  \<^verbatim>\<open>0.0\<close> and \<^verbatim>\<open>1.0\<close>, on which the notebook does no arithmetic.
\<close>

record params =
  output_name :: string
  time_range :: "string \<times> string"
  time_step :: "(string \<times> int) list"
  tide_range :: "real \<times> real"
  resolution :: "int \<times> int"
  max_cloud :: int
  ls7_slc_off :: bool

subsection \<open>Calls that leave the notebook\<close>

text \<open>
  The notebook calls three things it does not define: \<^verbatim>\<open>run_filmstrip_app\<close>,
  the \<^verbatim>\<open>groupby\<close> method of the returned collection and \<^verbatim>\<open>write_geotiff\<close>.
  Each call the cells make is recorded, with its arguments in the order they are passed.
\<close>

datatype ('c, 'd) call =
    RunFilmstripApp string "string \<times> string" "(string \<times> int) list" "real \<times> real"
      "int \<times> int" int bool
  | GroupBy 'c string
  | WriteGeotiff 'd string

text \<open>
  The imported functions are parameters of the model. \<open>'c\<close> is the collection
  \<^verbatim>\<open>run_filmstrip_app\<close> returns, \<open>'l\<close> a group label, \<open>'d\<close> the dataset of one
  group and \<open>'w\<close> everything outside the kernel that the imported functions act on (the
  files they write, the map widget). \<^verbatim>\<open>write_geotiff\<close> returns the exception it
  raised, if any, together with the outside world as it left it.
\<close>

record ('c, 'l, 'd, 'w) env =
  run_filmstrip_app :: "string \<Rightarrow> string \<times> string \<Rightarrow> (string \<times> int) list \<Rightarrow> real \<times> real \<Rightarrow>
     int \<times> int \<Rightarrow> int \<Rightarrow> bool \<Rightarrow> 'w \<Rightarrow> (exn + 'c) \<times> 'w"
  groupby :: "'c \<Rightarrow> string \<Rightarrow> exn + ('l \<times> 'd) list"
  write_geotiff :: "'d \<Rightarrow> string \<Rightarrow> 'w \<Rightarrow> exn option \<times> 'w"
  format_label :: "'l \<Rightarrow> string"

subsection \<open>The kernel state\<close>

text \<open>
  \<open>staged\<close> holds the seven parameter variables (unbound until the staging cell has
  run; its seven assignments of constants cannot raise, so they are bound together),
  \<open>output_data\<close> the variable the call cell assigns, \<open>loop_vars\<close> the targets
  \<^verbatim>\<open>i\<close> and \<^verbatim>\<open>ds\<close> of the \<^verbatim>\<open>for\<close> statement, which Python binds in the same
  module namespace. \<open>stdout\<close> is what \<^verbatim>\<open>print\<close> has written, \<open>calls\<close> the record
  of the calls made so far, \<open>world\<close> the state outside the kernel.
\<close>

record ('c, 'l, 'd, 'w) kernel =
  staged :: "params option"
  output_data :: "'c option"
  loop_vars :: "('l \<times> 'd) option"
  stdout :: "string list"
  calls :: "('c, 'd) call list"
  world :: 'w

subsection \<open>The parameter-staging cell\<close>

definition staged_params :: params where
  "staged_params =
     \<lparr>output_name = ''example'',
      time_range = (''1988-01-01'', ''2017-12-31''),
      time_step = [(''years'', 5)],
      tide_range = (0, 1),
      resolution = (- 30, 30),
      max_cloud = 50,
      ls7_slc_off = False\<rparr>"

text \<open>The cell with the values \<open>p\<close> written into it by the user.\<close>

definition assign_params ::
  "params \<Rightarrow> ('c, 'l, 'd, 'w) kernel \<Rightarrow> exn option \<times> ('c, 'l, 'd, 'w) kernel" where
  "assign_params p k = (None, k\<lparr>staged := Some p\<rparr>)"

definition staging_cell ::
  "('c, 'l, 'd, 'w) kernel \<Rightarrow> exn option \<times> ('c, 'l, 'd, 'w) kernel" where
  "staging_cell k = assign_params staged_params k"

text \<open>
  The defaults as the documentation gives them (the "Analysis parameters" text of the
  notebook and the list of configuration options of the specification): the examples for
  the three required parameters and the defaults of the four optional ones.
\<close>

definition documented_output_name :: string where
  "documented_output_name = ''example''"

definition documented_time_range :: "string \<times> string" where
  "documented_time_range = (''1988-01-01'', ''2017-12-31'')"

definition documented_time_step :: "(string \<times> int) list" where
  "documented_time_step = [(''years'', 5)]"

definition documented_tide_range :: "real \<times> real" where
  "documented_tide_range = (0, 1)"

definition documented_resolution :: "int \<times> int" where
  "documented_resolution = (- 30, 30)"

definition documented_max_cloud :: int where
  "documented_max_cloud = 50"

definition documented_ls7_slc_off :: bool where
  "documented_ls7_slc_off = False"

subsection \<open>The call of \<^verbatim>\<open>run_filmstrip_app\<close>\<close>

text \<open>
  \<^verbatim>\<open>output_data = run_filmstrip_app(output_name, time_range, time_step, tide_range,
  resolution, max_cloud, ls7_slc_off)\<close>: the seven names are read from the namespace and
  passed by position; the result is bound to \<^verbatim>\<open>output_data\<close> only when the call
  returns.
\<close>

definition acquisition_cell ::
  "('c, 'l, 'd, 'w) env \<Rightarrow> ('c, 'l, 'd, 'w) kernel \<Rightarrow> exn option \<times> ('c, 'l, 'd, 'w) kernel" where
  "acquisition_cell E k =
     (case staged k of
        None \<Rightarrow> (Some (NameError ''output_name''), k)
      | Some p \<Rightarrow>
          let k1 = k\<lparr>calls := calls k @
                     [RunFilmstripApp (output_name p) (time_range p) (time_step p) (tide_range p)
                        (resolution p) (max_cloud p) (ls7_slc_off p)]\<rparr>
          in (case run_filmstrip_app E (output_name p) (time_range p) (time_step p) (tide_range p)
                     (resolution p) (max_cloud p) (ls7_slc_off p) (world k1) of
                (Inl e, w) \<Rightarrow> (Some e, k1\<lparr>world := w\<rparr>)
              | (Inr c, w) \<Rightarrow> (None, k1\<lparr>output_data := Some c, world := w\<rparr>)))"

subsection \<open>The export loop\<close>

text \<open>
  \<^verbatim>\<open>f'geotiff_{output_name}_{i}.tif'\<close> and \<^verbatim>\<open>f'Exporting {i} data'\<close>, with the
  label's formatting function \<open>fmt\<close>.
\<close>

definition export_filename :: "('l \<Rightarrow> string) \<Rightarrow> string \<Rightarrow> 'l \<Rightarrow> string" where
  "export_filename fmt name i =
     fstring [Lit ''geotiff_'', Field name, Lit ''_'', Field (fmt i), Lit ''.tif'']"

definition export_message :: "('l \<Rightarrow> string) \<Rightarrow> 'l \<Rightarrow> string" where
  "export_message fmt i = fstring [Lit ''Exporting '', Field (fmt i), Lit '' data'']"

text \<open>
  One pass over the groups \<^verbatim>\<open>groupby\<close> yields. Each iteration binds \<^verbatim>\<open>i\<close> and
  \<^verbatim>\<open>ds\<close>, prints, reads \<^verbatim>\<open>output_name\<close> from the namespace to build the file
  name and calls the writer; an exception of the writer leaves the loop at once.
\<close>

fun export_loop ::
  "('c, 'l, 'd, 'w) env \<Rightarrow> ('l \<times> 'd) list \<Rightarrow> ('c, 'l, 'd, 'w) kernel \<Rightarrow>
     exn option \<times> ('c, 'l, 'd, 'w) kernel" where
  "export_loop E [] k = (None, k)"
| "export_loop E ((i, ds) # gs) k =
     (let k1 = k\<lparr>loop_vars := Some (i, ds)\<rparr>;
          k2 = k1\<lparr>stdout := stdout k1 @ [export_message (format_label E) i]\<rparr>
      in (case staged k2 of
            None \<Rightarrow> (Some (NameError ''output_name''), k2)
          | Some p \<Rightarrow>
              let fn = export_filename (format_label E) (output_name p) i;
                  k3 = k2\<lparr>calls := calls k2 @ [WriteGeotiff ds fn]\<rparr>
              in (case write_geotiff E ds fn (world k3) of
                    (Some e, w) \<Rightarrow> (Some e, k3\<lparr>world := w\<rparr>)
                  | (None, w) \<Rightarrow> export_loop E gs (k3\<lparr>world := w\<rparr>))))"

definition export_cell ::
  "('c, 'l, 'd, 'w) env \<Rightarrow> ('c, 'l, 'd, 'w) kernel \<Rightarrow> exn option \<times> ('c, 'l, 'd, 'w) kernel" where
  "export_cell E k =
     (case output_data k of
        None \<Rightarrow> (Some (NameError ''output_data''), k)
      | Some c \<Rightarrow>
          let k1 = k\<lparr>calls := calls k @ [GroupBy c ''timestep'']\<rparr>
          in (case groupby E c ''timestep'' of
                Inl e \<Rightarrow> (Some e, k1)
              | Inr gs \<Rightarrow> export_loop E gs k1))"

text \<open>The writer calls among the recorded calls: the dataset and the file name of each.\<close>

fun writer_calls :: "('c, 'd) call list \<Rightarrow> ('d \<times> string) list" where
  "writer_calls [] = []"
| "writer_calls (WriteGeotiff ds fn # cs) = (ds, fn) # writer_calls cs"
| "writer_calls (_ # cs) = writer_calls cs"

subsection \<open>A concrete run\<close>

text \<open>
  An environment to run the cells in: labels are integers, a dataset is a number, the
  collection is the list of its groups, and the outside world is the list of the names
  of the files written. The second environment has a writer that raises on dataset 1.
\<close>

definition demo_groups :: "(int \<times> nat) list" where
  "demo_groups = [(1988, 0), (1993, 1), (1998, 2), (2003, 3), (2008, 4), (2013, 5)]"

definition demo_groupby :: "(int \<times> nat) list \<Rightarrow> string \<Rightarrow> exn + (int \<times> nat) list" where
  "demo_groupby c key = (if key = ''timestep'' then Inr c else Inl (ExternalError ''KeyError''))"

definition demo_env :: "((int \<times> nat) list, int, nat, string list) env" where
  "demo_env =
     \<lparr>run_filmstrip_app = (\<lambda>name tr ts tide rs mc slc w. (Inr demo_groups, w)),
      groupby = demo_groupby,
      write_geotiff = (\<lambda>ds fn w. (None, w @ [fn])),
      format_label = str_int\<rparr>"

definition failing_env :: "((int \<times> nat) list, int, nat, string list) env" where
  "failing_env =
     demo_env\<lparr>write_geotiff :=
       (\<lambda>ds fn w. if ds = 1 then (Some (ExternalError ''IOError''), w) else (None, w @ [fn]))\<rparr>"

definition fresh_kernel :: "((int \<times> nat) list, int, nat, string list) kernel" where
  "fresh_kernel =
     \<lparr>staged = None, output_data = None, loop_vars = None, stdout = [], calls = [],
      world = []\<rparr>"

definition demo_kernel :: "((int \<times> nat) list, int, nat, string list) kernel" where
  "demo_kernel = snd (acquisition_cell demo_env (snd (staging_cell fresh_kernel)))"

section \<open>Properties\<close>

subsection \<open>Auxiliary facts\<close>

lemma export_filename_eq:
  "export_filename fmt name i = ''geotiff_'' @ name @ ''_'' @ fmt i @ ''.tif''"
  by (simp add: export_filename_def fstring_def)

lemma writer_calls_append: "writer_calls (xs @ ys) = writer_calls xs @ writer_calls ys"
  by (induction xs rule: writer_calls.induct) simp_all

lemma writer_calls_map:
  "writer_calls (map (\<lambda>(i, ds). WriteGeotiff ds (f i)) gs) = map (\<lambda>(i, ds). (ds, f i)) gs"
  by (induction gs) auto

lemma export_loop_staged: "staged (snd (export_loop E gs k)) = staged k"
  by (induction gs arbitrary: k) (auto simp: Let_def split: option.splits prod.splits)


lemma export_loop_append:
  "export_loop E (gs @ hs) k =
     (case export_loop E gs k of
        (None, k') \<Rightarrow> export_loop E hs k'
      | (Some e, k') \<Rightarrow> (Some e, k'))"
  by (induction gs arbitrary: k) (auto simp: Let_def split: option.splits prod.splits)

lemma export_loop_calls_normal:
  "staged k = Some p \<Longrightarrow> fst (export_loop E gs k) = None \<Longrightarrow>
   calls (snd (export_loop E gs k)) = calls k @
     map (\<lambda>(i, ds). WriteGeotiff ds (export_filename (format_label E) (output_name p) i)) gs"
  by (induction gs arbitrary: k) (auto simp: Let_def split: option.splits prod.splits)

text \<open>A writer that never raises lets the loop run to its end.\<close>

lemma export_loop_returns:
  "staged k = Some p \<Longrightarrow> (\<And>ds fn w. fst (write_geotiff E ds fn w) = None) \<Longrightarrow>
   fst (export_loop E gs k) = None"
proof (induction gs arbitrary: k)
  case Nil
  then show ?case by simp
next
  case (Cons g gs)
  obtain i ds where g: "g = (i, ds)" by (cases g)
  let ?fn = "export_filename (format_label E) (output_name p) i"
  obtain r w where wr: "write_geotiff E ds ?fn (world k) = (r, w)"
    by (cases "write_geotiff E ds ?fn (world k)")
  with Cons.prems(2) [of ds ?fn "world k"] have r: "r = None" by simp
  show ?case
    using Cons.prems(1) wr r g Cons.IH [OF _ Cons.prems(2)] by (simp add: Let_def)
qed

lemma demo_kernel_eq:
  "demo_kernel =
     \<lparr>staged = Some staged_params, output_data = Some demo_groups, loop_vars = None,
      stdout = [],
      calls = [RunFilmstripApp ''example'' (''1988-01-01'', ''2017-12-31'') [(''years'', 5)]
                 (0, 1) (- 30, 30) 50 False],
      world = []\<rparr>"
  by (simp add: demo_kernel_def acquisition_cell_def staging_cell_def assign_params_def
      fresh_kernel_def demo_env_def staged_params_def)

lemmas demo_simps =
  demo_kernel_eq export_cell_def failing_env_def demo_env_def demo_groupby_def demo_groups_def
  Let_def staged_params_def export_filename_eq export_message_def fstring_def
  str_int_def str_nat.simps digit_char_def

lemma export_cell_run:
  "output_data k = Some c \<Longrightarrow> groupby E c ''timestep'' = Inr gs \<Longrightarrow>
   export_cell E k = export_loop E gs (k\<lparr>calls := calls k @ [GroupBy c ''timestep'']\<rparr>)"
  by (simp add: export_cell_def)

text \<open>
  With \<^verbatim>\<open>output_name\<close> bound, a grouping that yields and a writer that never raises,
  the export cell runs to its end.
\<close>

lemma export_cell_returns:
  assumes "staged k = Some p"
    and "output_data k = Some c"
    and "groupby E c ''timestep'' = Inr gs"
    and "\<And>ds fn w. fst (write_geotiff E ds fn w) = None"
  shows "fst (export_cell E k) = None"
proof -
  have "staged (k\<lparr>calls := calls k @ [GroupBy c ''timestep'']\<rparr>) = Some p"
    using assms(1) by simp
  then have "fst (export_loop E gs (k\<lparr>calls := calls k @ [GroupBy c ''timestep'']\<rparr>)) = None"
    using assms(4) by (rule export_loop_returns)
  then show ?thesis
    using export_cell_run [OF assms(2,3)] by simp
qed





text \<open>The decimal numeral of an integer determines the integer.\<close>

lemma digit_char_inj:
  assumes "d < 10" "e < 10" "digit_char d = digit_char e"
  shows "d = e"
proof -
  have d: "d \<in> {0, 1, 2, 3, 4, 5, 6, 7, 8, 9}" using assms(1) by auto
  have e: "e \<in> {0, 1, 2, 3, 4, 5, 6, 7, 8, 9}" using assms(2) by auto
  from d e assms(3) show ?thesis
    by (auto simp: digit_char_def)
qed

lemma digit_char_not_minus: "d < 10 \<Longrightarrow> digit_char d \<noteq> CHR ''-''"
proof -
  assume "d < 10"
  then have d: "d \<in> {0, 1, 2, 3, 4, 5, 6, 7, 8, 9}" by auto
  then show ?thesis by (auto simp: digit_char_def)
qed

lemma str_nat_nonempty: "str_nat n \<noteq> []"
  by (subst str_nat.simps) simp

lemma str_nat_length_small: "n < 10 \<Longrightarrow> length (str_nat n) = 1"
  by (subst str_nat.simps) simp

lemma str_nat_length_big: "\<not> n < 10 \<Longrightarrow> 2 \<le> length (str_nat n)"
proof -
  assume "\<not> n < 10"
  then have "str_nat n = str_nat (n div 10) @ [digit_char (n mod 10)]"
    by (subst str_nat.simps) simp
  moreover have "1 \<le> length (str_nat (n div 10))"
    using str_nat_nonempty [of "n div 10"] by (cases "str_nat (n div 10)") auto
  ultimately show ?thesis by simp
qed

lemma str_nat_inj: "str_nat n = str_nat m \<Longrightarrow> n = m"
proof (induction n arbitrary: m rule: str_nat.induct)
  case (1 n)
  show ?case
  proof (cases "n < 10")
    case n: True
    show ?thesis
    proof (cases "m < 10")
      case True
      with n "1.prems" have "digit_char n = digit_char m"
        by (simp add: str_nat.simps [of n] str_nat.simps [of m])
      with n True show ?thesis by (rule digit_char_inj)
    next
      case False
      with n "1.prems" str_nat_length_small [of n] str_nat_length_big [of m]
      show ?thesis by simp
    qed
  next
    case n: False
    show ?thesis
    proof (cases "m < 10")
      case True
      with n "1.prems" str_nat_length_small [of m] str_nat_length_big [of n]
      show ?thesis by simp
    next
      case False
      with n "1.prems" have eq: "str_nat (n div 10) @ [digit_char (n mod 10)] =
          str_nat (m div 10) @ [digit_char (m mod 10)]"
        by (simp add: str_nat.simps [of n] str_nat.simps [of m])
      then have "str_nat (n div 10) = str_nat (m div 10)" by simp
      with n have q: "n div 10 = m div 10" by (rule "1.IH")
      from eq have "digit_char (n mod 10) = digit_char (m mod 10)" by simp
      then have r: "n mod 10 = m mod 10" by (intro digit_char_inj) auto
      from q r show ?thesis by (metis div_mult_mod_eq)
    qed
  qed
qed

lemma str_nat_hd_not_minus: "hd (str_nat n) \<noteq> CHR ''-''"
proof (induction n rule: str_nat.induct)
  case (1 n)
  show ?case
  proof (cases "n < 10")
    case True
    then show ?thesis by (simp add: str_nat.simps [of n] digit_char_not_minus)
  next
    case False
    with "1.IH" str_nat_nonempty [of "n div 10"] show ?thesis
      by (simp add: str_nat.simps [of n])
  qed
qed

lemma str_int_inj: "str_int i = str_int j \<Longrightarrow> i = j"
proof -
  assume eq: "str_int i = str_int j"
  have nm: "\<And>n m. CHR ''-'' # str_nat n \<noteq> str_nat m"
  proof
    fix n m assume "CHR ''-'' # str_nat n = str_nat m"
    then have "hd (str_nat m) = CHR ''-''" by (metis list.sel(1))
    with str_nat_hd_not_minus show False by blast
  qed
  show ?thesis
  proof (cases "i < 0")
    case i: True
    show ?thesis
    proof (cases "j < 0")
      case True
      with i eq have "str_nat (nat (- i)) = str_nat (nat (- j))" by (simp add: str_int_def)
      then have "nat (- i) = nat (- j)" by (rule str_nat_inj)
      with i True show ?thesis by simp
    next
      case False
      with i eq nm show ?thesis by (simp add: str_int_def)
    qed
  next
    case i: False
    show ?thesis
    proof (cases "j < 0")
      case True
      with i eq nm [of "nat (- j)" "nat i"] show ?thesis by (simp add: str_int_def)
    next
      case False
      with i eq have "str_nat (nat i) = str_nat (nat j)" by (simp add: str_int_def)
      then have "nat i = nat j" by (rule str_nat_inj)
      with i False show ?thesis by simp
    qed
  qed
qed

subsection \<open>Parameter staging\<close>

text \<open>
  Claim C4. The values the parameter-staging cell assigns are the documented ones:
  \<^verbatim>\<open>tide_range = (0.0, 1.0)\<close>, \<^verbatim>\<open>resolution = (-30, 30)\<close>,
  \<^verbatim>\<open>max_cloud = 50\<close>, \<^verbatim>\<open>ls7_slc_off = False\<close>, and for the required
  parameters the documented examples \<^verbatim>\<open>output_name = 'example'\<close>,
  \<^verbatim>\<open>time_range = ('1988-01-01', '2017-12-31')\<close>, \<^verbatim>\<open>time_step = {'years': 5}\<close>.
  The cell raises nothing and binds exactly these values, whatever the kernel state.
\<close>

theorem staging_cell_defaults:
  "staging_cell k =
     (None, k\<lparr>staged := Some
        \<lparr>output_name = documented_output_name,
         time_range = documented_time_range,
         time_step = documented_time_step,
         tide_range = documented_tide_range,
         resolution = documented_resolution,
         max_cloud = documented_max_cloud,
         ls7_slc_off = documented_ls7_slc_off\<rparr>\<rparr>)"
  by (simp add: staging_cell_def assign_params_def staged_params_def
      documented_output_name_def documented_time_range_def documented_time_step_def
      documented_tide_range_def documented_resolution_def documented_max_cloud_def
      documented_ls7_slc_off_def)

subsection \<open>The export loop\<close>







subsection \<open>The call\<close>

text \<open>
  Claim C5. Whatever parameter set \<open>p\<close> the staging cell binds, the call cell that runs
  next calls \<^verbatim>\<open>run_filmstrip_app\<close> once, with the seven values of \<open>p\<close> as they were
  staged, in the order \<^verbatim>\<open>output_name\<close>, \<^verbatim>\<open>time_range\<close>, \<^verbatim>\<open>time_step\<close>,
  \<^verbatim>\<open>tide_range\<close>, \<^verbatim>\<open>resolution\<close>, \<^verbatim>\<open>max_cloud\<close>, \<^verbatim>\<open>ls7_slc_off\<close>; the
  outside world after the cell is the one the helper left when called with them; and the
  seven variables hold the same values after the cell as before it.
\<close>

theorem acquisition_cell_passes_params:
  "calls (snd (acquisition_cell E (snd (assign_params p k)))) =
     calls k @ [RunFilmstripApp (output_name p) (time_range p) (time_step p) (tide_range p)
                  (resolution p) (max_cloud p) (ls7_slc_off p)] \<and>
   world (snd (acquisition_cell E (snd (assign_params p k)))) =
     snd (run_filmstrip_app E (output_name p) (time_range p) (time_step p) (tide_range p)
            (resolution p) (max_cloud p) (ls7_slc_off p) (world k)) \<and>
   staged (snd (acquisition_cell E (snd (assign_params p k)))) = Some p"
  by (simp add: acquisition_cell_def assign_params_def Let_def split: prod.split sum.split)

subsection \<open>Failure of the writer\<close>

text \<open>
  Claim C6. If the groups before group \<open>(i, ds)\<close> were exported and the writer raises
  \<open>e\<close> on that group, the export cell ends with \<open>e\<close>; the state it leaves is the one
  reached after the earlier groups, with the failed call recorded once and the outside
  world as the failed call left it. The writer has been called for the groups up to and
  including \<open>(i, ds)\<close> and for none of the groups after it.
\<close>

theorem export_cell_fail_fast:
  assumes "staged k = Some p"
    and "output_data k = Some c"
    and "groupby E c ''timestep'' = Inr (gs1 @ (i, ds) # gs2)"
    and "export_loop E gs1 (k\<lparr>calls := calls k @ [GroupBy c ''timestep'']\<rparr>) = (None, k1)"
    and "write_geotiff E ds (export_filename (format_label E) (output_name p) i) (world k1) =
           (Some e, w)"
  shows "export_cell E k =
           (Some e,
            k1\<lparr>loop_vars := Some (i, ds),
               stdout := stdout k1 @ [export_message (format_label E) i],
               calls := calls k1 @
                 [WriteGeotiff ds (export_filename (format_label E) (output_name p) i)],
               world := w\<rparr>) \<and>
         writer_calls (calls (snd (export_cell E k))) =
           writer_calls (calls k) @
             map (\<lambda>(i, ds). (ds, export_filename (format_label E) (output_name p) i))
               (gs1 @ [(i, ds)])"
proof -
  let ?k0 = "k\<lparr>calls := calls k @ [GroupBy c ''timestep'']\<rparr>"
  let ?fn = "export_filename (format_label E) (output_name p) i"
  have st0: "staged ?k0 = Some p" using assms(1) by simp
  have "staged k1 = staged ?k0"
    using export_loop_staged [of E gs1 ?k0] assms(4) by simp
  then have st1: "staged k1 = Some p" using st0 by simp
  have step: "export_loop E ((i, ds) # gs2) k1 =
      (Some e, k1\<lparr>loop_vars := Some (i, ds),
         stdout := stdout k1 @ [export_message (format_label E) i],
         calls := calls k1 @ [WriteGeotiff ds ?fn], world := w\<rparr>)"
    using st1 assms(5) by (simp add: Let_def)
  have run: "export_cell E k = export_loop E (gs1 @ (i, ds) # gs2) ?k0"
    using assms(2,3) by (rule export_cell_run)
  have res: "export_cell E k =
      (Some e, k1\<lparr>loop_vars := Some (i, ds),
         stdout := stdout k1 @ [export_message (format_label E) i],
         calls := calls k1 @ [WriteGeotiff ds ?fn], world := w\<rparr>)"
    unfolding run export_loop_append using assms(4) step by simp
  have "fst (export_loop E gs1 ?k0) = None" using assms(4) by simp
  from export_loop_calls_normal [OF st0 this]
  have "calls k1 = calls ?k0 @
      map (\<lambda>(i, ds). WriteGeotiff ds (export_filename (format_label E) (output_name p) i)) gs1"
    using assms(4) by simp
  then have "writer_calls (calls (snd (export_cell E k))) =
      writer_calls (calls k) @
        map (\<lambda>(i, ds). (ds, export_filename (format_label E) (output_name p) i))
          (gs1 @ [(i, ds)])"
    unfolding res by (simp add: writer_calls_append writer_calls_map)
  with res show ?thesis by simp
qed

theorem export_cell_fail_fast_witness:
  "export_cell failing_env demo_kernel =
     (Some (ExternalError ''IOError''),
      demo_kernel\<lparr>loop_vars := Some (1993, 1),
        stdout := [''Exporting 1988 data'', ''Exporting 1993 data''],
        calls := calls demo_kernel @
          [GroupBy demo_groups ''timestep'', WriteGeotiff 0 ''geotiff_example_1988.tif'',
           WriteGeotiff 1 ''geotiff_example_1993.tif''],
        world := world demo_kernel @ [''geotiff_example_1988.tif'']\<rparr>) \<and>
   writer_calls (calls (snd (export_cell failing_env demo_kernel))) =
     [(0, ''geotiff_example_1988.tif''), (1, ''geotiff_example_1993.tif'')]"
proof -
  let ?k1 = "demo_kernel\<lparr>loop_vars := Some (1988, 0),
        stdout := [''Exporting 1988 data''],
        calls := calls demo_kernel @
          [GroupBy demo_groups ''timestep'', WriteGeotiff 0 ''geotiff_example_1988.tif''],
        world := world demo_kernel @ [''geotiff_example_1988.tif'']\<rparr>"
  have h1: "staged demo_kernel = Some staged_params" by (simp add: demo_kernel_eq)
  have h2: "output_data demo_kernel = Some demo_groups" by (simp add: demo_kernel_eq)
  have h3: "groupby failing_env demo_groups ''timestep'' =
      Inr ([(1988, 0)] @ (1993, 1) # [(1998, 2), (2003, 3), (2008, 4), (2013, 5)])"
    by (simp add: failing_env_def demo_env_def demo_groupby_def demo_groups_def)
  have h4: "export_loop failing_env [(1988, 0)]
      (demo_kernel\<lparr>calls := calls demo_kernel @ [GroupBy demo_groups ''timestep'']\<rparr>) =
      (None, ?k1)"
    by (simp add: demo_simps)
  have h5: "write_geotiff failing_env 1
      (export_filename (format_label failing_env) (output_name staged_params) 1993)
      (world ?k1) = (Some (ExternalError ''IOError''), world ?k1)"
    by (simp add: failing_env_def demo_env_def)
  from export_cell_fail_fast [OF h1 h2 h3 h4 h5] show ?thesis
    by (simp add: demo_simps)
qed

subsection \<open>An empty collection\<close>

text \<open>
  Claim C8. If grouping the collection on \<^verbatim>\<open>'timestep'\<close> yields no group, the export
  cell ends without an exception, having called the writer not at all, printed nothing
  and left the outside world, and so every file, as it was: the grouping call is all it
  did.
\<close>

theorem export_cell_no_groups:
  assumes "output_data k = Some c"
    and "groupby E c ''timestep'' = Inr []"
  shows "export_cell E k = (None, k\<lparr>calls := calls k @ [GroupBy c ''timestep'']\<rparr>) \<and>
         writer_calls (calls (snd (export_cell E k))) = writer_calls (calls k) \<and>
         world (snd (export_cell E k)) = world k"
  using assms by (simp add: export_cell_def writer_calls_append)

theorem export_cell_no_groups_witness:
  "export_cell demo_env (demo_kernel\<lparr>output_data := Some []\<rparr>) =
     (None, demo_kernel\<lparr>output_data := Some [],
        calls := calls demo_kernel @ [GroupBy [] ''timestep'']\<rparr>) \<and>
   writer_calls (calls (snd (export_cell demo_env (demo_kernel\<lparr>output_data := Some []\<rparr>)))) = [] \<and>
   world (snd (export_cell demo_env (demo_kernel\<lparr>output_data := Some []\<rparr>))) = []"
proof -
  have h1: "output_data (demo_kernel\<lparr>output_data := Some []\<rparr>) = Some []" by simp
  have h2: "groupby demo_env [] ''timestep'' = Inr []"
    by (simp add: demo_env_def demo_groupby_def)
  from export_cell_no_groups [OF h1 h2] show ?thesis
    by (simp add: demo_kernel_eq)
qed

subsection \<open>Distinct labels, distinct files\<close>

text \<open>
  Claim C9. For a fixed \<^verbatim>\<open>output_name\<close>, two group labels get the same file name
  only if they are the same label: the name is injective in the label, for integer
  labels and for string labels alike, so the file names of the groups of one run are
  pairwise distinct exactly when the labels are.
\<close>

theorem export_filename_injective:
  "(export_filename str_int name i = export_filename str_int name j \<longleftrightarrow> i = j) \<and>
   (export_filename str_str name s = export_filename str_str name t \<longleftrightarrow> s = t) \<and>
   (distinct (map (export_filename str_int name) is) \<longleftrightarrow> distinct is) \<and>
   (distinct (map (export_filename str_str name) ss) \<longleftrightarrow> distinct ss)"
proof -
  have int_eq: "export_filename str_int name a = export_filename str_int name b \<longleftrightarrow> a = b"
    for a b
    using str_int_inj [of a b] by (auto simp: export_filename_eq)
  have str_eq: "export_filename str_str name a = export_filename str_str name b \<longleftrightarrow> a = b"
    for a b
    by (simp add: export_filename_eq str_str_def)
  have "inj_on (export_filename str_int name) (set is)"
    by (rule inj_onI) (simp add: int_eq)
  moreover have "inj_on (export_filename str_str name) (set ss)"
    by (rule inj_onI) (simp add: str_eq)
  ultimately show ?thesis
    by (simp add: int_eq str_eq distinct_map)
qed

subsection \<open>What the export loop leaves unchanged\<close>



end
